theory Spec2Isabelle
  imports
    Complex_Main
    "HOL-Library.Multiset"
    "HOL-Library.Char_ord"
    "HOL-Library.List_Lexorder"
begin

section \<open>Data model of streamlit\_app.py\<close>

text \<open>
  The script reads two CSV files into pandas frames and derives every view from them.
  A frame is modelled as the list of its rows, in row order. A cell of a column that
  \<open>read_csv\<close> could not type is either missing (NaN), a number or a text. Finite floats
  are modelled as reals, so comparisons are exact and the mean is the exact quotient;
  rounding is not modelled. A timestamp is the number of nanoseconds since the epoch
  (timezone-naive), a calendar date is a day number. A text is a list of characters
  with code points below 256; characteristic names are texts or missing (\<open>None\<close>).
\<close>

datatype cell = Missing | Num real | Text string

text \<open>Station table: the type parameters are the type of the identifier column (cells
  as read, texts or missing after normalization) and of the two coordinate columns (cells
  as read, reals after coercion).\<close>

record ('i, 'c) station =
  MonitoringLocationIdentifier :: 'i
  LatitudeMeasure :: 'c
  LongitudeMeasure :: 'c

text \<open>Narrow result table: the parameters are the types of the identifier, of the date
  and of the value column (cells as read, timestamp and real after
  \<open>load_narrowresult_data\<close>). The identifier column has the same name as in the station
  table in the source.\<close>

record ('i, 'd, 'v) narrowresult =
  NR_MonitoringLocationIdentifier :: 'i
  CharacteristicName :: "string option"
  ActivityStartDate :: 'd
  ResultMeasureValue :: 'v

type_synonym result_row = "(string option, int, real) narrowresult"

text \<open>The pandas conversions are library code. The conversion of a text to a number
  and of a cell to a timestamp are parameters of the model; \<open>None\<close> is NaN or NaT.
  So is \<open>sort_values("ActivityStartDate")\<close> on a group of rows: its default algorithm
  is not stable, and all that is known of it is that it sorts (\<open>sorts_by_date\<close>).\<close>

record pandas =
  parse_number :: "string \<Rightarrow> real option"
  parse_datetime :: "cell \<Rightarrow> int option"
  sort_values :: "result_row list \<Rightarrow> result_row list"

definition sorts_by_date :: "pandas \<Rightarrow> bool" where
  "sorts_by_date pd =
     (\<forall>g. mset (sort_values pd g) = mset g \<and>
          sorted (map ActivityStartDate (sort_values pd g)))"

text \<open>The dtype \<open>read_csv\<close> gives a column: \<open>object\<close> when the column is empty or holds a
  text, a numeric dtype otherwise. Dropping rows keeps the dtype, so it is taken from the
  column as read.\<close>

datatype dtype = object | numeric

fun is_text :: "cell \<Rightarrow> bool" where
  "is_text (Text s) = True"
| "is_text _ = False"

definition infer_dtype :: "cell list \<Rightarrow> dtype" where
  "infer_dtype col = (if col = [] \<or> list_ex is_text col then object else numeric)"

datatype exception = AttributeError | StreamlitAPIException

definition to_numeric :: "pandas \<Rightarrow> cell \<Rightarrow> real option" where
  \<comment> \<open>\<open>pd.to_numeric(..., errors='coerce')\<close> on one cell\<close>
  "to_numeric pd c = (case c of Missing \<Rightarrow> None | Num x \<Rightarrow> Some x | Text s \<Rightarrow> parse_number pd s)"

definition to_datetime :: "pandas \<Rightarrow> cell \<Rightarrow> int option" where
  \<comment> \<open>\<open>pd.to_datetime(..., errors='coerce')\<close> on one cell\<close>
  "to_datetime pd c = (case c of Missing \<Rightarrow> None | _ \<Rightarrow> parse_datetime pd c)"

definition isna :: "cell \<Rightarrow> bool" where
  "isna c = (c = Missing)"

section \<open>Dataset loader\<close>

definition load_station_data :: "('i, cell) station list \<Rightarrow> ('i, cell) station list" where
  \<comment> \<open>\<open>df.dropna(subset=['LatitudeMeasure', 'LongitudeMeasure'])\<close>\<close>
  "load_station_data df =
     filter (\<lambda>r. \<not> isna (LatitudeMeasure r) \<and> \<not> isna (LongitudeMeasure r)) df"

definition load_narrowresult_row ::
  "pandas \<Rightarrow> ('i, cell, cell) narrowresult \<Rightarrow> ('i, int, real) narrowresult option" where
  "load_narrowresult_row pd r =
     (case to_datetime pd (ActivityStartDate r) of
        None \<Rightarrow> None
      | Some d \<Rightarrow>
         (case to_numeric pd (ResultMeasureValue r) of
            None \<Rightarrow> None
          | Some v \<Rightarrow>
              Some \<lparr>NR_MonitoringLocationIdentifier = NR_MonitoringLocationIdentifier r,
                    CharacteristicName = CharacteristicName r,
                    ActivityStartDate = d, ResultMeasureValue = v\<rparr>))"

definition load_narrowresult_data ::
  "pandas \<Rightarrow> ('i, cell, cell) narrowresult list \<Rightarrow> ('i, int, real) narrowresult list" where
  \<comment> \<open>coerce both columns, then drop the rows where either is null\<close>
  "load_narrowresult_data pd df = List.map_filter (load_narrowresult_row pd) df"

section \<open>Identifier normalizer\<close>

definition isspace :: "char \<Rightarrow> bool" where
  \<comment> \<open>the characters \<open>str.strip()\<close> removes: tab to carriage return, FS to US, space,
      next line (133) and no-break space (160)\<close>
  "isspace c =
     (let n = (of_char c :: nat)
      in (9 \<le> n \<and> n \<le> 13) \<or> (28 \<le> n \<and> n \<le> 32) \<or> n = 133 \<or> n = 160)"

definition isupper :: "char \<Rightarrow> bool" where
  \<comment> \<open>the characters \<open>str.lower()\<close> changes: A to Z and the capitals 192 to 222 but
      the multiplication sign (215)\<close>
  "isupper c =
     (let n = (of_char c :: nat)
      in (65 \<le> n \<and> n \<le> 90) \<or> (192 \<le> n \<and> n \<le> 214) \<or> (216 \<le> n \<and> n \<le> 222))"

definition lower_char :: "char \<Rightarrow> char" where
  "lower_char c = (if isupper c then char_of ((of_char c :: nat) + 32) else c)"

definition strip :: "string \<Rightarrow> string" where
  "strip s = rev (dropWhile isspace (rev (dropWhile isspace s)))"

definition lower :: "string \<Rightarrow> string" where
  "lower s = map lower_char s"

definition normalize :: "string \<Rightarrow> string" where
  \<comment> \<open>\<open>.str.strip().str.lower()\<close> on one text\<close>
  "normalize s = lower (strip s)"

definition normalize_cell :: "string option \<Rightarrow> string option" where
  "normalize_cell = map_option normalize"

fun str_strip_lower :: "cell \<Rightarrow> string option" where
  \<comment> \<open>one element under the \<open>.str\<close> accessor: what is no text becomes missing\<close>
  "str_strip_lower (Text s) = Some (normalize s)"
| "str_strip_lower _ = None"

definition normalize_stations ::
  "dtype \<Rightarrow> (cell, 'c) station list \<Rightarrow> exception + (string option, 'c) station list" where
  \<comment> \<open>line 45; the \<open>.str\<close> accessor raises on a column that is not of dtype object\<close>
  "normalize_stations dt df =
     (case dt of
        numeric \<Rightarrow> Inl AttributeError
      | object \<Rightarrow>
          Inr (map (\<lambda>r. \<lparr>MonitoringLocationIdentifier =
                            str_strip_lower (MonitoringLocationIdentifier r),
                          LatitudeMeasure = LatitudeMeasure r,
                          LongitudeMeasure = LongitudeMeasure r\<rparr>) df))"

definition normalize_results ::
  "dtype \<Rightarrow> (cell, 'd, 'v) narrowresult list \<Rightarrow>
     exception + (string option, 'd, 'v) narrowresult list" where
  \<comment> \<open>line 46\<close>
  "normalize_results dt df =
     (case dt of
        numeric \<Rightarrow> Inl AttributeError
      | object \<Rightarrow>
          Inr (map (\<lambda>r. \<lparr>NR_MonitoringLocationIdentifier =
                            str_strip_lower (NR_MonitoringLocationIdentifier r),
                          CharacteristicName = CharacteristicName r,
                          ActivityStartDate = ActivityStartDate r,
                          ResultMeasureValue = ResultMeasureValue r\<rparr>) df))"

section \<open>Filter engine\<close>

definition unique :: "'a list \<Rightarrow> 'a list" where
  \<comment> \<open>\<open>Series.unique()\<close>: distinct values in order of first appearance\<close>
  "unique xs = rev (remdups (rev xs))"

definition eq_elem :: "string option \<Rightarrow> string option \<Rightarrow> bool" where
  \<comment> \<open>elementwise \<open>==\<close> of a column with a scalar: a missing value equals nothing\<close>
  "eq_elem a b = (case a of None \<Rightarrow> False | Some x \<Rightarrow> b = Some x)"

definition contaminants :: "result_row list \<Rightarrow> string option list" where
  "contaminants df = unique (map CharacteristicName df)"

definition filtered_initial :: "result_row list \<Rightarrow> string option \<Rightarrow> result_row list" where
  "filtered_initial df selected_contaminant =
     filter (\<lambda>r. eq_elem (CharacteristicName r) selected_contaminant) df"

fun series_min :: "'a::linorder \<Rightarrow> 'a list \<Rightarrow> 'a" where
  "series_min x [] = x"
| "series_min x (y # ys) = series_min (min x y) ys"

fun series_max :: "'a::linorder \<Rightarrow> 'a list \<Rightarrow> 'a" where
  "series_max x [] = x"
| "series_max x (y # ys) = series_max (max x y) ys"

definition ns_per_day :: int where
  "ns_per_day = 86400000000000"

definition date :: "int \<Rightarrow> int" where
  \<comment> \<open>\<open>Timestamp.date()\<close> and \<open>.dt.date\<close>: the day of a timestamp, time of day dropped\<close>
  "date t = t div ns_per_day"

datatype error = EmptySelection

definition bounds :: "result_row list \<Rightarrow> string option \<Rightarrow> error + (real \<times> real \<times> int \<times> int)" where
  \<comment> \<open>\<open>min_value\<close>, \<open>max_value\<close>, \<open>min_date\<close>, \<open>max_date\<close> of \<open>filtered_initial\<close>,
      computed in the \<open>else\<close> branch of the \<open>filtered_initial.empty\<close> test\<close>
  "bounds df selected_contaminant =
     (case filtered_initial df selected_contaminant of
        [] \<Rightarrow> Inl EmptySelection
      | r # rs \<Rightarrow>
          Inr (series_min (ResultMeasureValue r) (map ResultMeasureValue rs),
               series_max (ResultMeasureValue r) (map ResultMeasureValue rs),
               date (series_min (ActivityStartDate r) (map ActivityStartDate rs)),
               date (series_max (ActivityStartDate r) (map ActivityStartDate rs))))"

datatype date_value = SingleDate int | DateTuple "int list"

fun start_end :: "date_value \<Rightarrow> int \<Rightarrow> int \<Rightarrow> int \<times> int" where
  \<comment> \<open>\<open>isinstance(date_range, tuple) and len(date_range) == 2\<close>, else the bounds\<close>
  "start_end (DateTuple [s, e]) min_date max_date = (s, e)"
| "start_end _ min_date max_date = (min_date, max_date)"

definition mask :: "string option \<Rightarrow> real \<times> real \<Rightarrow> int \<times> int \<Rightarrow> result_row \<Rightarrow> bool" where
  "mask selected_contaminant measurement_range dates r =
     (eq_elem (CharacteristicName r) selected_contaminant \<and>
      ResultMeasureValue r \<ge> fst measurement_range \<and>
      ResultMeasureValue r \<le> snd measurement_range \<and>
      date (ActivityStartDate r) \<ge> fst dates \<and>
      date (ActivityStartDate r) \<le> snd dates)"

definition filtered_df ::
  "result_row list \<Rightarrow> string option \<Rightarrow> real \<times> real \<Rightarrow> int \<times> int \<Rightarrow> result_row list" where
  "filtered_df df selected_contaminant measurement_range dates =
     filter (mask selected_contaminant measurement_range dates) df"

section \<open>Station resolver\<close>

definition station_names :: "result_row list \<Rightarrow> string option list" where
  "station_names fd = unique (map NR_MonitoringLocationIdentifier fd)"

definition coerce_station :: "pandas \<Rightarrow> ('i, cell) station \<Rightarrow> ('i, real) station option" where
  \<comment> \<open>both coordinates through \<open>to_numeric\<close>; a row with a null coordinate is dropped\<close>
  "coerce_station pd s =
     (case to_numeric pd (LatitudeMeasure s) of
        None \<Rightarrow> None
      | Some la \<Rightarrow>
         (case to_numeric pd (LongitudeMeasure s) of
            None \<Rightarrow> None
          | Some lo \<Rightarrow>
              Some \<lparr>MonitoringLocationIdentifier = MonitoringLocationIdentifier s,
                    LatitudeMeasure = la, LongitudeMeasure = lo\<rparr>))"

definition filtered_stations ::
  "pandas \<Rightarrow> (string option, cell) station list \<Rightarrow> result_row list \<Rightarrow>
     (string option, real) station list" where
  "filtered_stations pd station_df fd =
     List.map_filter (coerce_station pd)
       (filter (\<lambda>s. MonitoringLocationIdentifier s \<in> set (station_names fd)) station_df)"

section \<open>Map and trend rendering\<close>

record marker =
  location :: "real \<times> real"
  popup :: "string option"

datatype map_view = Folium_Map "real \<times> real" "marker list" | Written string

definition mean :: "real list \<Rightarrow> real" where
  "mean xs = sum_list xs / real (length xs)"

definition station_marker :: "(string option, real) station \<Rightarrow> marker" where
  "station_marker row =
     \<lparr>location = (LatitudeMeasure row, LongitudeMeasure row),
      popup = MonitoringLocationIdentifier row\<rparr>"

definition station_map :: "(string option, real) station list \<Rightarrow> map_view" where
  "station_map fs =
     (if fs \<noteq> [] then
        Folium_Map (mean (map LatitudeMeasure fs), mean (map LongitudeMeasure fs))
                   (map station_marker fs)
      else Written ''No stations found with the selected criteria for this characteristic.'')"

record line =
  label :: string
  xs_line :: "int list"
  ys_line :: "real list"

definition groupby :: "result_row list \<Rightarrow> (string \<times> result_row list) list" where
  \<comment> \<open>\<open>groupby\<close> with its defaults: keys sorted, rows with a missing key left out,
      row order kept inside a group\<close>
  "groupby fd =
     map (\<lambda>site. (site, filter (\<lambda>r. NR_MonitoringLocationIdentifier r = Some site) fd))
         (sort (remdups (List.map_filter NR_MonitoringLocationIdentifier fd)))"

definition plot_line :: "pandas \<Rightarrow> string \<times> result_row list \<Rightarrow> line" where
  "plot_line pd sg =
     (let group_sorted = sort_values pd (snd sg)
      in \<lparr>label = fst sg,
          xs_line = map ActivityStartDate group_sorted,
          ys_line = map ResultMeasureValue group_sorted\<rparr>)"

definition trend :: "pandas \<Rightarrow> result_row list \<Rightarrow> line list" where
  "trend pd fd = map (plot_line pd) (groupby fd)"

section \<open>The script\<close>

text \<open>The widgets are functions of the arguments the script passes them; what they
  return is the user's choice. The slider checks its arguments first: it raises unless
  \<open>min_value\<close> is less than \<open>max_value\<close>, and the script does not catch that.\<close>

record widgets =
  selectbox :: "string option list \<Rightarrow> string option"
  slider :: "real \<Rightarrow> real \<Rightarrow> real \<times> real"
  date_input :: "int \<Rightarrow> int \<Rightarrow> date_value"

definition st_slider :: "widgets \<Rightarrow> real \<Rightarrow> real \<Rightarrow> exception + real \<times> real" where
  "st_slider ui min_value max_value =
     (if min_value < max_value then Inr (slider ui min_value max_value)
      else Inl StreamlitAPIException)"

datatype page =
    Info string
  | Error string
  | Raised exception
  | Dashboard nat map_view "line list"

definition dashboard ::
  "pandas \<Rightarrow> widgets \<Rightarrow> (string option, cell) station list \<Rightarrow> result_row list \<Rightarrow> page" where
  "dashboard pd ui station_df narrowresult_df =
     (let selected_contaminant = selectbox ui (contaminants narrowresult_df)
      in case bounds narrowresult_df selected_contaminant of
           Inl _ \<Rightarrow> Error ''No records found for the selected contaminant.''
         | Inr (min_value, max_value, min_date, max_date) \<Rightarrow>
             (case st_slider ui min_value max_value of
                Inl e \<Rightarrow> Raised e
              | Inr measurement_range \<Rightarrow>
                  (let dates = start_end (date_input ui min_date max_date) min_date max_date;
                       fd = filtered_df narrowresult_df selected_contaminant
                              measurement_range dates
                   in Dashboard (length fd)
                        (station_map (filtered_stations pd station_df fd))
                        (trend pd fd))))"

definition app ::
  "pandas \<Rightarrow> widgets \<Rightarrow> (cell, cell) station list option \<Rightarrow>
     (cell, cell, cell) narrowresult list option \<Rightarrow> page" where
  "app pd ui station_file narrowresult_file =
     (case station_file of
        None \<Rightarrow> Info ''Please upload both databases (CSV files) in the sidebar to continue.''
      | Some sf \<Rightarrow>
         (case narrowresult_file of
            None \<Rightarrow> Info ''Please upload both databases (CSV files) in the sidebar to continue.''
          | Some nf \<Rightarrow>
             (case normalize_stations (infer_dtype (map MonitoringLocationIdentifier sf))
                     (load_station_data sf) of
                Inl e \<Rightarrow> Raised e
              | Inr station_df \<Rightarrow>
                 (case normalize_results (infer_dtype (map NR_MonitoringLocationIdentifier nf))
                         (load_narrowresult_data pd nf) of
                    Inl e \<Rightarrow> Raised e
                  | Inr narrowresult_df \<Rightarrow> dashboard pd ui station_df narrowresult_df))))"

section \<open>Example data\<close>

text \<open>A small loaded and normalized measurement table: Lead at two stations, one Zinc
  row and one row whose characteristic name is missing. The second row is taken at
  01:00 of its day.\<close>

definition r1 :: result_row where
  "r1 = \<lparr>NR_MonitoringLocationIdentifier = Some ''s1'', CharacteristicName = Some ''Lead'',
         ActivityStartDate = 18262 * ns_per_day, ResultMeasureValue = 5\<rparr>"

definition r2 :: result_row where
  "r2 = \<lparr>NR_MonitoringLocationIdentifier = Some ''s1'', CharacteristicName = Some ''Lead'',
         ActivityStartDate = 18414 * ns_per_day + 3600000000000, ResultMeasureValue = 15\<rparr>"

definition r3 :: result_row where
  "r3 = \<lparr>NR_MonitoringLocationIdentifier = Some ''s2'', CharacteristicName = Some ''Lead'',
         ActivityStartDate = 18322 * ns_per_day, ResultMeasureValue = 10\<rparr>"

definition r4 :: result_row where
  "r4 = \<lparr>NR_MonitoringLocationIdentifier = Some ''s1'', CharacteristicName = Some ''Zinc'',
         ActivityStartDate = 18300 * ns_per_day, ResultMeasureValue = 7\<rparr>"

definition r5 :: result_row where
  "r5 = \<lparr>NR_MonitoringLocationIdentifier = Some ''s3'', CharacteristicName = None,
         ActivityStartDate = 18301 * ns_per_day, ResultMeasureValue = 1\<rparr>"

definition example_results :: "result_row list" where
  "example_results = [r1, r2, r3, r4, r5]"

text \<open>A raw station table: an identifier to be normalized, a missing latitude, a
  latitude that is no number.\<close>

definition st1 :: "(cell, cell) station" where
  "st1 = \<lparr>MonitoringLocationIdentifier = Text ''S1 '', LatitudeMeasure = Text ''40.0'',
          LongitudeMeasure = Num (-75)\<rparr>"

definition st2 :: "(cell, cell) station" where
  "st2 = \<lparr>MonitoringLocationIdentifier = Text ''s2'', LatitudeMeasure = Missing,
          LongitudeMeasure = Num (-76)\<rparr>"

definition st3 :: "(cell, cell) station" where
  "st3 = \<lparr>MonitoringLocationIdentifier = Text '' S3'', LatitudeMeasure = Text ''abc'',
          LongitudeMeasure = Num (-77)\<rparr>"

definition example_stations :: "(cell, cell) station list" where
  "example_stations = [st1, st2, st3]"

text \<open>The station table after load and normalization.\<close>

definition example_station_df :: "(string option, cell) station list" where
  "example_station_df =
     [\<lparr>MonitoringLocationIdentifier = Some ''s1'', LatitudeMeasure = Text ''40.0'',
       LongitudeMeasure = Num (-75)\<rparr>,
      \<lparr>MonitoringLocationIdentifier = Some ''s3'', LatitudeMeasure = Text ''abc'',
       LongitudeMeasure = Num (-77)\<rparr>]"

definition example_pandas :: pandas where
  \<comment> \<open>a conversion that knows the two number texts of the examples, and a sort\<close>
  "example_pandas =
     \<lparr>parse_number = map_of [(''40.0'', 40), (''42.0'', 42)],
      parse_datetime = (\<lambda>c. case c of Num x \<Rightarrow> Some \<lfloor>x\<rfloor> | _ \<Rightarrow> None),
      sort_values = sort_key ActivityStartDate\<rparr>"

definition default_widgets :: "string option \<Rightarrow> widgets" where
  \<comment> \<open>the user picks a characteristic and leaves both range widgets at their defaults\<close>
  "default_widgets choice =
     \<lparr>selectbox = (\<lambda>options. choice),
      slider = (\<lambda>min_value max_value. (min_value, max_value)),
      date_input = (\<lambda>min_date max_date. DateTuple [min_date, max_date])\<rparr>"

definition date_widgets :: "string option \<Rightarrow> date_value \<Rightarrow> widgets" where
  \<comment> \<open>the user leaves the slider alone and the date widget hands back the given value\<close>
  "date_widgets choice picked =
     \<lparr>selectbox = (\<lambda>options. choice),
      slider = (\<lambda>min_value max_value. (min_value, max_value)),
      date_input = (\<lambda>min_date max_date. picked)\<rparr>"

definition two_stations :: "(string option, real) station list" where
  "two_stations =
     [\<lparr>MonitoringLocationIdentifier = Some ''s1'', LatitudeMeasure = 40, LongitudeMeasure = -75\<rparr>,
      \<lparr>MonitoringLocationIdentifier = Some ''s4'', LatitudeMeasure = 42, LongitudeMeasure = -77\<rparr>]"

text \<open>A text with a no-break space, a capital E with acute accent and a tab.\<close>

definition example_text :: string where
  "example_text = [CHR 0xA0, CHR ''S'', CHR 0xC9, CHR ''1'', CHR 0x09]"

section \<open>Auxiliary facts\<close>

lemma series_min_le: "z \<in> set (x # ys) \<Longrightarrow> series_min x ys \<le> z"
proof (induction ys arbitrary: x z)
  case Nil
  then show ?case by simp
next
  case (Cons y ys)
  have m: "series_min (min x y) ys \<le> min x y"
    by (rule Cons.IH) simp
  from Cons.prems consider "z = x" | "z = y" | "z \<in> set ys" by auto
  then show ?case
  proof cases
    case 1
    with m show ?thesis by simp
  next
    case 2
    with m show ?thesis by simp
  next
    case 3
    then have "series_min (min x y) ys \<le> z" by (intro Cons.IH) simp
    then show ?thesis by simp
  qed
qed

lemma series_min_in: "series_min x ys \<in> set (x # ys)"
proof (induction ys arbitrary: x)
  case Nil
  show ?case by simp
next
  case (Cons y ys)
  have "series_min (min x y) ys \<in> set (min x y # ys)" by (rule Cons.IH)
  then show ?case by (auto simp: min_def split: if_splits)
qed

lemma series_max_ge: "z \<in> set (x # ys) \<Longrightarrow> z \<le> series_max x ys"
proof (induction ys arbitrary: x z)
  case Nil
  then show ?case by simp
next
  case (Cons y ys)
  have m: "max x y \<le> series_max (max x y) ys"
    by (rule Cons.IH) simp
  from Cons.prems consider "z = x" | "z = y" | "z \<in> set ys" by auto
  then show ?case
  proof cases
    case 1
    with m show ?thesis by simp
  next
    case 2
    with m show ?thesis by simp
  next
    case 3
    then have "z \<le> series_max (max x y) ys" by (intro Cons.IH) simp
    then show ?thesis by simp
  qed
qed

lemma series_max_in: "series_max x ys \<in> set (x # ys)"
proof (induction ys arbitrary: x)
  case Nil
  show ?case by simp
next
  case (Cons y ys)
  have "series_max (max x y) ys \<in> set (max x y # ys)" by (rule Cons.IH)
  then show ?case by (auto simp: max_def split: if_splits)
qed

lemma series_min_Min: "series_min x ys = Min (set (x # ys))"
proof (rule sym, rule Min_eqI)
  show "finite (set (x # ys))" by simp
  show "series_min x ys \<le> z" if "z \<in> set (x # ys)" for z
    using that by (rule series_min_le)
  show "series_min x ys \<in> set (x # ys)" by (rule series_min_in)
qed

lemma series_max_Max: "series_max x ys = Max (set (x # ys))"
proof (rule sym, rule Max_eqI)
  show "finite (set (x # ys))" by simp
  show "z \<le> series_max x ys" if "z \<in> set (x # ys)" for z
    using that by (rule series_max_ge)
  show "series_max x ys \<in> set (x # ys)" by (rule series_max_in)
qed

lemma date_mono: "a \<le> b \<Longrightarrow> date a \<le> date b"
  by (simp add: date_def ns_per_day_def zdiv_mono1)

lemma date_series_min: "date (series_min x ys) = Min (date ` set (x # ys))"
proof (rule sym, rule Min_eqI)
  show "finite (date ` set (x # ys))" by simp
  show "date (series_min x ys) \<le> d" if "d \<in> date ` set (x # ys)" for d
    using that by (auto intro!: date_mono series_min_le simp del: series_min.simps)
  show "date (series_min x ys) \<in> date ` set (x # ys)"
    using series_min_in [of x ys] by blast
qed

lemma date_series_max: "date (series_max x ys) = Max (date ` set (x # ys))"
proof (rule sym, rule Max_eqI)
  show "finite (date ` set (x # ys))" by simp
  show "d \<le> date (series_max x ys)" if "d \<in> date ` set (x # ys)" for d
    using that by (auto intro!: date_mono series_max_ge simp del: series_max.simps)
  show "date (series_max x ys) \<in> date ` set (x # ys)"
    using series_max_in [of x ys] by blast
qed

lemma eq_elem_Some [simp]: "eq_elem a (Some c) \<longleftrightarrow> a = Some c"
  by (cases a) (auto simp: eq_elem_def)

lemma eq_elem_None [simp]: "\<not> eq_elem a None"
  by (cases a) (auto simp: eq_elem_def)

lemma filtered_initial_None [simp]: "filtered_initial df None = []"
  by (simp add: filtered_initial_def)

lemma filtered_initial_Some:
  "filtered_initial df (Some c) = filter (\<lambda>r. CharacteristicName r = Some c) df"
  by (simp add: filtered_initial_def)

lemma bounds_Inl_iff: "bounds df sel = Inl e \<longleftrightarrow> filtered_initial df sel = []"
  by (cases e) (simp add: bounds_def split: list.splits)

lemma bounds_Inr_Some: "bounds df sel = Inr b \<Longrightarrow> \<exists>c. sel = Some c"
  by (cases sel) (auto simp: bounds_def)

lemma date_ignores_time: "0 \<le> t \<Longrightarrow> t < ns_per_day \<Longrightarrow> date (d * ns_per_day + t) = d"
  by (simp add: date_def ns_per_day_def)

lemma mask_Some:
  "mask (Some c) mr dates r \<longleftrightarrow>
     CharacteristicName r = Some c \<and> fst mr \<le> ResultMeasureValue r \<and>
     ResultMeasureValue r \<le> snd mr \<and> fst dates \<le> date (ActivityStartDate r) \<and>
     date (ActivityStartDate r) \<le> snd dates"
  by (simp add: mask_def)

lemmas ex_defs = example_results_def r1_def r2_def r3_def r4_def r5_def

lemma ex_bounds_Lead: "bounds example_results (Some ''Lead'') = Inr (5, 15, 18262, 18414)"
  by (simp add: bounds_def filtered_initial_def ex_defs date_def ns_per_day_def)

lemma filtered_initial_subset_mask:
  assumes "bounds df sel = Inr (min_value, max_value, min_date, max_date)"
    and "r \<in> set (filtered_initial df sel)"
  shows "mask sel (min_value, max_value) (min_date, max_date) r"
proof -
  from assms(1) obtain r0 rs where fi: "filtered_initial df sel = r0 # rs"
    and mv: "min_value = series_min (ResultMeasureValue r0) (map ResultMeasureValue rs)"
    and xv: "max_value = series_max (ResultMeasureValue r0) (map ResultMeasureValue rs)"
    and md: "min_date = date (series_min (ActivityStartDate r0) (map ActivityStartDate rs))"
    and xd: "max_date = date (series_max (ActivityStartDate r0) (map ActivityStartDate rs))"
    by (auto simp: bounds_def split: list.splits)
  from assms(2) fi have v: "ResultMeasureValue r \<in> set (ResultMeasureValue r0 # map ResultMeasureValue rs)"
    and d: "ActivityStartDate r \<in> set (ActivityStartDate r0 # map ActivityStartDate rs)"
    by auto
  from assms(2) have e: "eq_elem (CharacteristicName r) sel"
    by (simp add: filtered_initial_def)
  have "min_value \<le> ResultMeasureValue r" unfolding mv using v by (rule series_min_le)
  moreover have "ResultMeasureValue r \<le> max_value" unfolding xv using v by (rule series_max_ge)
  moreover have "min_date \<le> date (ActivityStartDate r)"
    unfolding md using d by (intro date_mono series_min_le)
  moreover have "date (ActivityStartDate r) \<le> max_date"
    unfolding xd using d by (intro date_mono series_max_ge)
  ultimately show ?thesis using e by (simp add: mask_def)
qed

lemma filtered_df_default:
  assumes "bounds df sel = Inr (min_value, max_value, min_date, max_date)"
  shows "filtered_df df sel (min_value, max_value) (min_date, max_date) = filtered_initial df sel"
proof -
  have "filter (mask sel (min_value, max_value) (min_date, max_date)) df =
        filter (\<lambda>r. eq_elem (CharacteristicName r) sel) df"
  proof (rule filter_cong [OF refl])
    fix r assume "r \<in> set df"
    then show "mask sel (min_value, max_value) (min_date, max_date) r =
               eq_elem (CharacteristicName r) sel"
      using filtered_initial_subset_mask [OF assms, of r]
      by (auto simp: filtered_initial_def mask_def)
  qed
  then show ?thesis by (simp add: filtered_df_def filtered_initial_def)
qed

lemma filtered_initial_eq:
  assumes "bounds df sel = Inr b"
  shows "filtered_initial df sel = filter (\<lambda>r. CharacteristicName r = sel) df"
proof -
  from assms obtain c where "sel = Some c" by (auto dest: bounds_Inr_Some)
  then show ?thesis by (simp add: filtered_initial_Some)
qed

lemma dashboard_empty:
  "filtered_initial df (selectbox ui (contaminants df)) = [] \<Longrightarrow>
   dashboard pd ui station_df df = Error ''No records found for the selected contaminant.''"
  by (simp add: dashboard_def bounds_def)

lemma bounds_values:
  assumes "filtered_initial df sel \<noteq> []"
  shows "bounds df sel =
     Inr (Min (ResultMeasureValue ` set (filtered_initial df sel)),
          Max (ResultMeasureValue ` set (filtered_initial df sel)),
          Min ((\<lambda>r. date (ActivityStartDate r)) ` set (filtered_initial df sel)),
          Max ((\<lambda>r. date (ActivityStartDate r)) ` set (filtered_initial df sel)))"
proof -
  from assms obtain r rs where fi: "filtered_initial df sel = r # rs"
    by (cases "filtered_initial df sel") auto
  have 1: "series_min (ResultMeasureValue r) (map ResultMeasureValue rs)
           = Min (ResultMeasureValue ` set (r # rs))"
    by (simp add: series_min_Min del: series_min.simps)
  have 2: "series_max (ResultMeasureValue r) (map ResultMeasureValue rs)
           = Max (ResultMeasureValue ` set (r # rs))"
    by (simp add: series_max_Max del: series_max.simps)
  have 3: "date (series_min (ActivityStartDate r) (map ActivityStartDate rs))
           = Min ((\<lambda>r. date (ActivityStartDate r)) ` set (r # rs))"
    by (simp add: date_series_min image_image del: series_min.simps)
  have 4: "date (series_max (ActivityStartDate r) (map ActivityStartDate rs))
           = Max ((\<lambda>r. date (ActivityStartDate r)) ` set (r # rs))"
    by (simp add: date_series_max image_image del: series_max.simps)
  show ?thesis
    unfolding bounds_def fi using 1 2 3 4 by simp
qed

lemma of_char_lower_char:
  "(of_char (lower_char c) :: nat) = (if isupper c then of_char c + 32 else of_char c)"
  by (simp add: lower_char_def isupper_def Let_def)

lemma isupper_lower_char: "\<not> isupper (lower_char c)"
  unfolding isupper_def [of "lower_char c"] Let_def of_char_lower_char
  by (auto simp: isupper_def Let_def)

lemma lower_char_idem: "lower_char (lower_char c) = lower_char c"
  by (simp add: lower_char_def [of "lower_char c"] isupper_lower_char)

lemma isspace_lower_char: "isspace (lower_char c) = isspace c"
  unfolding isspace_def Let_def of_char_lower_char by (auto simp: isupper_def Let_def)



lemma strip_lower: "strip (lower s) = lower (strip s)"
proof -
  have c: "isspace \<circ> lower_char = isspace"
    by (rule ext) (simp add: isspace_lower_char)
  show ?thesis
    by (simp add: strip_def lower_def dropWhile_map rev_map c)
qed

lemma strip_ends:
  assumes "strip s \<noteq> []"
  shows "\<not> isspace (hd (strip s)) \<and> \<not> isspace (last (strip s))"
proof -
  define t where "t = dropWhile isspace s"
  define w where "w = dropWhile isspace (rev t)"
  have u: "strip s = rev w" by (simp add: strip_def w_def t_def)
  with assms have w: "w \<noteq> []" by simp
  then have l: "\<not> isspace (hd w)" unfolding w_def by (rule hd_dropWhile)
  have "rev t = takeWhile isspace (rev t) @ w" by (simp add: w_def)
  then have "rev (rev t) = rev (takeWhile isspace (rev t) @ w)" by simp
  then have t: "t = rev w @ rev (takeWhile isspace (rev t))" by simp
  with w have "t \<noteq> []" by auto
  then have "\<not> isspace (hd t)" unfolding t_def by (rule hd_dropWhile)
  moreover have "hd t = hd (rev w)" using w by (subst t) simp
  ultimately have "\<not> isspace (hd (rev w))" by simp
  moreover have "last (rev w) = hd w" using w by (simp add: last_rev)
  ultimately show ?thesis using l by (simp add: u)
qed

lemma strip_fixed:
  assumes "u = [] \<or> (\<not> isspace (hd u) \<and> \<not> isspace (last u))"
  shows "strip u = u"
proof (cases "u = []")
  case True
  then show ?thesis by (simp add: strip_def)
next
  case False
  with assms have h: "\<not> isspace (hd u)" and l: "\<not> isspace (last u)" by auto
  from False h have 1: "dropWhile isspace u = u" by (simp add: dropWhile_eq_self_iff)
  from False l have 2: "dropWhile isspace (rev u) = rev u"
    by (simp add: dropWhile_eq_self_iff hd_rev)
  show ?thesis by (simp add: strip_def 1 2)
qed

lemma strip_idem: "strip (strip s) = strip s"
  by (rule strip_fixed) (use strip_ends [of s] in blast)

lemma strip_decompose:
  "s = takeWhile isspace s @ strip s @ rev (takeWhile isspace (rev (dropWhile isspace s)))"
proof -
  define t where "t = dropWhile isspace s"
  have "rev (takeWhile isspace (rev t) @ dropWhile isspace (rev t)) = t"
    by (simp only: takeWhile_dropWhile_id rev_rev_ident)
  then have "t = strip s @ rev (takeWhile isspace (rev t))"
    by (simp only: rev_append strip_def t_def)
  moreover have "s = takeWhile isspace s @ t" by (simp add: t_def)
  ultimately show ?thesis unfolding t_def by simp
qed

lemma lower_idem: "lower (lower s) = lower s"
  by (simp add: lower_def lower_char_idem)

lemma normalize_idem: "normalize (normalize s) = normalize s"
  by (simp add: normalize_def strip_lower strip_idem lower_idem)

lemma set_unique [simp]: "set (unique xs) = set xs"
  by (simp add: unique_def)

lemma map_filter_filter_eq:
  assumes "\<And>x. Q x \<Longrightarrow> f x = Some (g x)" and "\<And>x. \<not> Q x \<Longrightarrow> f x = None"
  shows "List.map_filter f (filter P xs) = map g (filter (\<lambda>x. P x \<and> Q x) xs)"
proof (induction xs)
  case Nil
  show ?case by (simp add: List.map_filter_simps)
next
  case (Cons x xs)
  show ?case
  proof (cases "Q x")
    case True
    with assms(1) [of x] Cons.IH show ?thesis by (simp add: List.map_filter_simps)
  next
    case False
    with assms(2) [of x] Cons.IH show ?thesis by (simp add: List.map_filter_simps)
  qed
qed

lemma coerce_station_numeric:
  assumes "to_numeric pd (LatitudeMeasure s) \<noteq> None \<and> to_numeric pd (LongitudeMeasure s) \<noteq> None"
  shows "coerce_station pd s =
     Some \<lparr>MonitoringLocationIdentifier = MonitoringLocationIdentifier s,
          LatitudeMeasure = the (to_numeric pd (LatitudeMeasure s)),
          LongitudeMeasure = the (to_numeric pd (LongitudeMeasure s))\<rparr>"
  using assms by (auto simp: coerce_station_def split: option.splits)

lemma coerce_station_not_numeric:
  assumes "\<not> (to_numeric pd (LatitudeMeasure s) \<noteq> None \<and> to_numeric pd (LongitudeMeasure s) \<noteq> None)"
  shows "coerce_station pd s = None"
  using assms by (auto simp: coerce_station_def split: option.splits)

lemma filtered_stations_eq:
  "filtered_stations pd station_df fd =
     map (\<lambda>s. \<lparr>MonitoringLocationIdentifier = MonitoringLocationIdentifier s,
               LatitudeMeasure = the (to_numeric pd (LatitudeMeasure s)),
               LongitudeMeasure = the (to_numeric pd (LongitudeMeasure s))\<rparr>)
       (filter (\<lambda>s. MonitoringLocationIdentifier s \<in> NR_MonitoringLocationIdentifier ` set fd \<and>
                     (to_numeric pd (LatitudeMeasure s) \<noteq> None \<and>
                      to_numeric pd (LongitudeMeasure s) \<noteq> None)) station_df)"
  unfolding filtered_stations_def station_names_def set_unique set_map
  by (rule map_filter_filter_eq) (erule coerce_station_numeric, erule coerce_station_not_numeric)

lemma dashboard_reached:
  assumes "bounds df (selectbox ui (contaminants df)) = Inr (min_value, max_value, min_date, max_date)"
    and "min_value < max_value"
  shows "dashboard pd ui station_df df =
     Dashboard
       (length (filtered_df df (selectbox ui (contaminants df)) (slider ui min_value max_value)
                  (start_end (date_input ui min_date max_date) min_date max_date)))
       (station_map (filtered_stations pd station_df
          (filtered_df df (selectbox ui (contaminants df)) (slider ui min_value max_value)
                  (start_end (date_input ui min_date max_date) min_date max_date))))
       (trend pd (filtered_df df (selectbox ui (contaminants df)) (slider ui min_value max_value)
                  (start_end (date_input ui min_date max_date) min_date max_date)))"
  by (simp add: dashboard_def st_slider_def assms Let_def)

lemma dashboard_slider_raises:
  assumes "bounds df (selectbox ui (contaminants df)) = Inr (min_value, max_value, min_date, max_date)"
    and "\<not> min_value < max_value"
  shows "dashboard pd ui station_df df = Raised StreamlitAPIException"
  by (simp add: dashboard_def st_slider_def assms Let_def)

lemma to_numeric_simps [simp]:
  "to_numeric pd Missing = None"
  "to_numeric pd (Num x) = Some x"
  "to_numeric pd (Text s) = parse_number pd s"
  by (simp_all add: to_numeric_def)

lemma normalized_loaded_example:
  "normalize_stations (infer_dtype (map MonitoringLocationIdentifier example_stations))
     (load_station_data example_stations) = Inr example_station_df"
proof -
  have "normalize ''S1 '' = ''s1''" "normalize '' S3'' = ''s3''" by code_simp+
  then show ?thesis
    by (simp add: normalize_stations_def load_station_data_def example_stations_def
        st1_def st2_def st3_def isna_def infer_dtype_def example_station_df_def)
qed

lemma station_marker_nth:
  "i < length fs \<Longrightarrow>
     location (map station_marker fs ! i) = (LatitudeMeasure (fs ! i), LongitudeMeasure (fs ! i)) \<and>
     popup (map station_marker fs ! i) = MonitoringLocationIdentifier (fs ! i)"
  by (simp add: station_marker_def)

lemma filtered_stations_ids:
  assumes "s \<in> set (filtered_stations pd station_df fd)"
  shows "\<exists>s0 \<in> set station_df. MonitoringLocationIdentifier s = MonitoringLocationIdentifier s0 \<and>
           MonitoringLocationIdentifier s0 \<in> NR_MonitoringLocationIdentifier ` set fd"
proof -
  from assms obtain s0 where "s0 \<in> set station_df"
    and "MonitoringLocationIdentifier s0 \<in> NR_MonitoringLocationIdentifier ` set fd"
    and "s = \<lparr>MonitoringLocationIdentifier = MonitoringLocationIdentifier s0,
               LatitudeMeasure = the (to_numeric pd (LatitudeMeasure s0)),
               LongitudeMeasure = the (to_numeric pd (LongitudeMeasure s0))\<rparr>"
    unfolding filtered_stations_eq by auto
  then show ?thesis by (intro bexI [of _ s0]) simp_all
qed

lemma str_strip_lower_normal: "normalize_cell (str_strip_lower c) = str_strip_lower c"
  by (cases c) (simp_all add: normalize_cell_def normalize_idem)

lemma normalize_stations_ids:
  "normalize_stations dt df = Inr station_df \<Longrightarrow> s \<in> set station_df \<Longrightarrow>
     normalize_cell (MonitoringLocationIdentifier s) = MonitoringLocationIdentifier s"
  by (auto simp: normalize_stations_def str_strip_lower_normal split: dtype.splits)

lemma set_map_filter_Some: "set (List.map_filter f xs) = {y. Some y \<in> f ` set xs}"
  by (induction xs) (auto simp: List.map_filter_simps split: option.splits)

lemma labels_trend:
  "map label (trend pd fd) = sort (remdups (List.map_filter NR_MonitoringLocationIdentifier fd))"
  by (simp add: trend_def groupby_def plot_line_def Let_def comp_def)

lemma sorted_date: "sorted (map ActivityStartDate rows) \<Longrightarrow> sorted (map (\<lambda>r. date (ActivityStartDate r)) rows)"
  by (induction rows) (auto intro: date_mono)

lemma line_of_trend:
  assumes "sorts_by_date pd" and "l \<in> set (trend pd fd)"
  shows "\<exists>rows. mset rows = mset (filter (\<lambda>r. NR_MonitoringLocationIdentifier r = Some (label l)) fd) \<and>
           sorted (map ActivityStartDate rows) \<and>
           sorted (map (\<lambda>r. date (ActivityStartDate r)) rows) \<and>
           xs_line l = map ActivityStartDate rows \<and>
           ys_line l = map ResultMeasureValue rows"
proof -
  from assms(2) obtain site where
    l: "l = plot_line pd (site, filter (\<lambda>r. NR_MonitoringLocationIdentifier r = Some site) fd)"
    by (auto simp: trend_def groupby_def)
  let ?rows = "sort_values pd (filter (\<lambda>r. NR_MonitoringLocationIdentifier r = Some site) fd)"
  have "label l = site" "xs_line l = map ActivityStartDate ?rows"
    "ys_line l = map ResultMeasureValue ?rows"
    by (simp_all add: l plot_line_def Let_def)
  moreover have "mset ?rows = mset (filter (\<lambda>r. NR_MonitoringLocationIdentifier r = Some site) fd)"
    using assms(1) by (simp add: sorts_by_date_def)
  moreover have s: "sorted (map ActivityStartDate ?rows)"
    using assms(1) by (simp add: sorts_by_date_def)
  moreover have "sorted (map (\<lambda>r. date (ActivityStartDate r)) ?rows)"
    using s by (rule sorted_date)
  ultimately show ?thesis by blast
qed

lemma sorts_by_date_example: "sorts_by_date example_pandas"
  by (simp add: sorts_by_date_def example_pandas_def)

lemma sort_ids: "sort [''s1'', ''s2''] = [''s1'', ''s2'']"
  by code_simp

lemma trend_example:
  "trend example_pandas [r1, r2, r3] =
     [\<lparr>label = ''s1'', xs_line = [18262 * ns_per_day, 18414 * ns_per_day + 3600000000000],
       ys_line = [5, 15]\<rparr>,
      \<lparr>label = ''s2'', xs_line = [18322 * ns_per_day], ys_line = [10]\<rparr>]"
  by (simp add: trend_def groupby_def plot_line_def example_pandas_def
      r1_def r2_def r3_def sort_ids ns_per_day_def)

lemma resolved_example:
  "filtered_stations example_pandas example_station_df [r1, r2, r3] =
     [\<lparr>MonitoringLocationIdentifier = Some ''s1'', LatitudeMeasure = 40, LongitudeMeasure = -75\<rparr>]"
  by (simp add: filtered_stations_eq example_station_df_def example_pandas_def
      r1_def r2_def r3_def)

section \<open>Properties of the filter engine\<close>

subsection \<open>C1: the filter keeps exactly the rows that satisfy the three predicates\<close>

text \<open>
  Claim C1. The mask is evaluated in the branch where \<open>filtered_initial\<close> is not
  empty, that is where \<open>bounds\<close> succeeds. There a row of the loaded table is in
  \<open>filtered_df\<close> if and only if its characteristic name is the selected one, its value
  lies between the two ends of the measurement range, and the day of its timestamp lies
  between the start and the end date, all four comparisons inclusive. The day of a
  timestamp does not depend on the time of day.
\<close>

theorem filtered_df_membership:
  assumes "bounds df selected_contaminant = Inr b"
  shows "(r \<in> set (filtered_df df selected_contaminant measurement_range (start_date, end_date)) \<longleftrightarrow>
           r \<in> set df \<and> CharacteristicName r = selected_contaminant \<and>
           fst measurement_range \<le> ResultMeasureValue r \<and>
           ResultMeasureValue r \<le> snd measurement_range \<and>
           start_date \<le> date (ActivityStartDate r) \<and> date (ActivityStartDate r) \<le> end_date) \<and>
         (\<forall>d t. 0 \<le> t \<and> t < ns_per_day \<longrightarrow> date (d * ns_per_day + t) = d)"
proof -
  from assms obtain c where c: "selected_contaminant = Some c"
    by (auto dest: bounds_Inr_Some)
  show ?thesis
    unfolding c filtered_df_def by (auto simp: mask_Some date_ignores_time)
qed

theorem filtered_df_membership_witness:
  "bounds example_results (Some ''Lead'') = Inr (5, 15, 18262, 18414) \<and>
   r2 \<in> set (filtered_df example_results (Some ''Lead'') (10, 15) (18322, 18414)) \<and>
   r1 \<notin> set (filtered_df example_results (Some ''Lead'') (10, 15) (18322, 18414)) \<and>
   date (18414 * ns_per_day + 3600000000000) = 18414"
proof -
  have b: "bounds example_results (Some ''Lead'') = Inr (5, 15, 18262, 18414)"
    by (simp add: bounds_def filtered_initial_def ex_defs date_def ns_per_day_def)
  have "r2 \<in> set (filtered_df example_results (Some ''Lead'') (10, 15) (18322, 18414))"
    using filtered_df_membership [OF b, of r2 "(10, 15)" 18322 18414]
    by (simp add: ex_defs date_def ns_per_day_def)
  moreover have "r1 \<notin> set (filtered_df example_results (Some ''Lead'') (10, 15) (18322, 18414))"
    using filtered_df_membership [OF b, of r1 "(10, 15)" 18322 18414]
    by (simp add: ex_defs date_def ns_per_day_def)
  moreover have "date (18414 * ns_per_day + 3600000000000) = 18414"
  proof -
    from filtered_df_membership [OF b, of r1 "(10, 15)" 18322 18414]
    have "\<forall>d t. 0 \<le> t \<and> t < ns_per_day \<longrightarrow> date (d * ns_per_day + t) = d"
      by blast
    then have "0 \<le> (3600000000000 :: int) \<and> 3600000000000 < ns_per_day \<longrightarrow>
        date (18414 * ns_per_day + 3600000000000) = 18414"
      by blast
    then show ?thesis by (simp add: ns_per_day_def)
  qed
  ultimately show ?thesis using b by simp
qed

subsection \<open>C2: the default ranges exclude no row of the characteristic\<close>

text \<open>
  Claim C2. When the bounds of a characteristic exist, filtering with the value range
  \<open>(min_value, max_value)\<close> and with the date range that the untouched date widget
  stands for, the pair \<open>(min_date, max_date)\<close>, returns exactly the rows of that
  characteristic, in table order.
\<close>

theorem default_ranges_keep_characteristic:
  assumes "bounds df sel = Inr (min_value, max_value, min_date, max_date)"
  shows "filtered_df df sel (min_value, max_value)
           (start_end (DateTuple [min_date, max_date]) min_date max_date)
         = filter (\<lambda>r. CharacteristicName r = sel) df"
  using filtered_df_default [OF assms] filtered_initial_eq [OF assms] by simp

theorem default_ranges_keep_characteristic_witness:
  "bounds example_results (Some ''Lead'') = Inr (5, 15, 18262, 18414) \<and>
   filtered_df example_results (Some ''Lead'') (5, 15) (18262, 18414) = [r1, r2, r3]"
proof -
  have b: "bounds example_results (Some ''Lead'') = Inr (5, 15, 18262, 18414)"
    by (simp add: bounds_def filtered_initial_def ex_defs date_def ns_per_day_def)
  have "filtered_df example_results (Some ''Lead'') (5, 15) (18262, 18414) = [r1, r2, r3]"
    using default_ranges_keep_characteristic [OF b]
    by (simp add: ex_defs)
  with b show ?thesis by simp
qed

subsection \<open>C3: the bounds are the minimum and maximum over the characteristic's rows\<close>

text \<open>
  Claim C3. When some row has the selected characteristic, \<open>bounds\<close> returns the least
  and greatest value and the least and greatest day among exactly the rows of that
  characteristic. When no row has it, \<open>bounds\<close> fails with the empty selection, and the
  page is the error message alone: no range widget is read, no map and no chart is built.
\<close>

theorem bounds_min_max:
  "(filtered_initial df sel \<noteq> [] \<longrightarrow>
      set (filtered_initial df sel) = {r \<in> set df. CharacteristicName r = sel} \<and>
      bounds df sel =
        Inr (Min (ResultMeasureValue ` {r \<in> set df. CharacteristicName r = sel}),
             Max (ResultMeasureValue ` {r \<in> set df. CharacteristicName r = sel}),
             Min ((\<lambda>r. date (ActivityStartDate r)) ` {r \<in> set df. CharacteristicName r = sel}),
             Max ((\<lambda>r. date (ActivityStartDate r)) ` {r \<in> set df. CharacteristicName r = sel}))) \<and>
   (filtered_initial df sel = [] \<longrightarrow>
      bounds df sel = Inl EmptySelection \<and>
      (selectbox ui (contaminants df) = sel \<longrightarrow>
         dashboard pd ui station_df df = Error ''No records found for the selected contaminant.''))"
proof (intro conjI impI)
  assume ne: "filtered_initial df sel \<noteq> []"
  then obtain b where "bounds df sel = Inr b"
    by (cases "bounds df sel") (auto simp: bounds_Inl_iff)
  then have "filtered_initial df sel = filter (\<lambda>r. CharacteristicName r = sel) df"
    by (rule filtered_initial_eq)
  then show s: "set (filtered_initial df sel) = {r \<in> set df. CharacteristicName r = sel}"
    by simp
  show "bounds df sel =
        Inr (Min (ResultMeasureValue ` {r \<in> set df. CharacteristicName r = sel}),
             Max (ResultMeasureValue ` {r \<in> set df. CharacteristicName r = sel}),
             Min ((\<lambda>r. date (ActivityStartDate r)) ` {r \<in> set df. CharacteristicName r = sel}),
             Max ((\<lambda>r. date (ActivityStartDate r)) ` {r \<in> set df. CharacteristicName r = sel}))"
    using bounds_values [OF ne] unfolding s .
next
  assume "filtered_initial df sel = []"
  then show "bounds df sel = Inl EmptySelection" by (simp add: bounds_def)
next
  assume "filtered_initial df sel = []" "selectbox ui (contaminants df) = sel"
  then show "dashboard pd ui station_df df = Error ''No records found for the selected contaminant.''"
    by (simp add: dashboard_empty)
qed

theorem bounds_min_max_witness:
  "filtered_initial example_results (Some ''Lead'') \<noteq> [] \<and>
   bounds example_results (Some ''Lead'') = Inr (5, 15, 18262, 18414) \<and>
   filtered_initial example_results (Some ''Iron'') = [] \<and>
   bounds example_results (Some ''Iron'') = Inl EmptySelection \<and>
   dashboard example_pandas (default_widgets (Some ''Iron'')) example_station_df example_results =
     Error ''No records found for the selected contaminant.''"
proof -
  have ne: "filtered_initial example_results (Some ''Lead'') \<noteq> []"
    by (simp add: filtered_initial_def ex_defs)
  have e: "filtered_initial example_results (Some ''Iron'') = []"
    by (simp add: filtered_initial_def ex_defs)
  have fi: "filtered_initial example_results (Some ''Lead'') = [r1, r2, r3]"
    by (simp add: filtered_initial_def ex_defs)
  have w: "selectbox (default_widgets (Some ''Iron'')) (contaminants example_results) = Some ''Iron''"
    by (simp add: default_widgets_def)
  from bounds_min_max [of example_results "Some ''Lead''"] ne
  have s: "{r \<in> set example_results. CharacteristicName r = Some ''Lead''} =
           set (filtered_initial example_results (Some ''Lead''))"
    and b: "bounds example_results (Some ''Lead'') =
        Inr (Min (ResultMeasureValue ` {r \<in> set example_results. CharacteristicName r = Some ''Lead''}),
             Max (ResultMeasureValue ` {r \<in> set example_results. CharacteristicName r = Some ''Lead''}),
             Min ((\<lambda>r. date (ActivityStartDate r)) ` {r \<in> set example_results. CharacteristicName r = Some ''Lead''}),
             Max ((\<lambda>r. date (ActivityStartDate r)) ` {r \<in> set example_results. CharacteristicName r = Some ''Lead''}))"
    by blast+
  have "bounds example_results (Some ''Lead'') = Inr (5, 15, 18262, 18414)"
    unfolding b s fi by (simp add: r1_def r2_def r3_def date_def ns_per_day_def)
  moreover have "bounds example_results (Some ''Iron'') = Inl EmptySelection \<and>
      dashboard example_pandas (default_widgets (Some ''Iron'')) example_station_df example_results =
        Error ''No records found for the selected contaminant.''"
    using bounds_min_max [of example_results "Some ''Iron''"
        "default_widgets (Some ''Iron'')" example_pandas example_station_df] e w
    by simp
  ultimately show ?thesis using ne e by simp
qed

section \<open>Properties of the identifier normalizer\<close>

subsection \<open>C4: normalization trims, lowercases and is idempotent\<close>

text \<open>
  Claim C4. Normalizing a text twice gives the same as normalizing it once. The
  normalized text is the lowercased middle part of the original, which is the original
  without a leading and a trailing run of whitespace, and this middle part neither begins
  nor ends with whitespace. Whitespace is the twelve characters 9 to 13, 28 to 32, 133
  and 160; lowercasing moves exactly the capitals (A to Z and 192 to 222 without 215) by
  32, so no capital is left. In both tables an identifier column of texts is rewritten
  element by element this way, the other columns are kept, and the result is in normal
  form; on an identifier column that was not read as text the rewrite raises
  \<open>AttributeError\<close>.
\<close>

theorem normalize_idempotent:
  "normalize (normalize s) = normalize s \<and>
   normalize s = map lower_char (strip s) \<and>
   (\<exists>pre suf. s = pre @ strip s @ suf \<and> list_all isspace pre \<and> list_all isspace suf) \<and>
   (strip s \<noteq> [] \<longrightarrow> \<not> isspace (hd (strip s)) \<and> \<not> isspace (last (strip s))) \<and>
   (\<forall>c. isspace c \<longleftrightarrow>
        (of_char c :: nat) \<in> {9, 10, 11, 12, 13, 28, 29, 30, 31, 32, 133, 160}) \<and>
   (\<forall>c. isupper c \<longleftrightarrow>
        (65 \<le> (of_char c :: nat) \<and> (of_char c :: nat) \<le> 90) \<or>
        (192 \<le> (of_char c :: nat) \<and> (of_char c :: nat) \<le> 214) \<or>
        (216 \<le> (of_char c :: nat) \<and> (of_char c :: nat) \<le> 222)) \<and>
   (\<forall>c. (of_char (lower_char c) :: nat) = (if isupper c then of_char c + 32 else of_char c)) \<and>
   (\<forall>c \<in> set (normalize s). \<not> isupper c) \<and>
   normalize_stations object station_df =
     Inr (map (\<lambda>r. \<lparr>MonitoringLocationIdentifier = str_strip_lower (MonitoringLocationIdentifier r),
                    LatitudeMeasure = LatitudeMeasure r,
                    LongitudeMeasure = LongitudeMeasure r\<rparr>) station_df) \<and>
   normalize_results object narrowresult_df =
     Inr (map (\<lambda>r. \<lparr>NR_MonitoringLocationIdentifier =
                      str_strip_lower (NR_MonitoringLocationIdentifier r),
                    CharacteristicName = CharacteristicName r,
                    ActivityStartDate = ActivityStartDate r,
                    ResultMeasureValue = ResultMeasureValue r\<rparr>) narrowresult_df) \<and>
   normalize_stations numeric station_df = Inl AttributeError \<and>
   normalize_results numeric narrowresult_df = Inl AttributeError \<and>
   str_strip_lower (Text s) = Some (normalize s) \<and>
   str_strip_lower Missing = None \<and>
   normalize_cell (str_strip_lower c) = str_strip_lower c"
proof (intro conjI)
  show "normalize (normalize s) = normalize s" by (rule normalize_idem)
  show "normalize s = map lower_char (strip s)" by (simp add: normalize_def lower_def)
  have "list_all isspace (takeWhile isspace s)"
    by (auto simp: list_all_iff dest: set_takeWhileD)
  moreover have "list_all isspace (rev (takeWhile isspace (rev (dropWhile isspace s))))"
    by (auto simp: list_all_iff dest: set_takeWhileD)
  ultimately show "\<exists>pre suf. s = pre @ strip s @ suf \<and> list_all isspace pre \<and> list_all isspace suf"
    using strip_decompose [of s] by blast
  show "strip s \<noteq> [] \<longrightarrow> \<not> isspace (hd (strip s)) \<and> \<not> isspace (last (strip s))"
    using strip_ends [of s] by blast
  show "\<forall>c. isspace c \<longleftrightarrow>
        (of_char c :: nat) \<in> {9, 10, 11, 12, 13, 28, 29, 30, 31, 32, 133, 160}"
  proof
    fix c :: char
    show "isspace c \<longleftrightarrow>
        (of_char c :: nat) \<in> {9, 10, 11, 12, 13, 28, 29, 30, 31, 32, 133, 160}"
      unfolding isspace_def Let_def by (simp only: insert_iff empty_iff) arith
  qed
  show "\<forall>c. isupper c \<longleftrightarrow>
        (65 \<le> (of_char c :: nat) \<and> (of_char c :: nat) \<le> 90) \<or>
        (192 \<le> (of_char c :: nat) \<and> (of_char c :: nat) \<le> 214) \<or>
        (216 \<le> (of_char c :: nat) \<and> (of_char c :: nat) \<le> 222)"
    by (simp add: isupper_def Let_def)
  show "\<forall>c. (of_char (lower_char c) :: nat) = (if isupper c then of_char c + 32 else of_char c)"
    by (simp add: of_char_lower_char)
  show "\<forall>c \<in> set (normalize s). \<not> isupper c"
  proof
    fix c assume "c \<in> set (normalize s)"
    then obtain c0 where "c = lower_char c0" by (auto simp: normalize_def lower_def)
    then show "\<not> isupper c" by (simp add: isupper_lower_char)
  qed
  show "str_strip_lower (Text s) = Some (normalize s)" by simp
  show "str_strip_lower Missing = None" by simp
  show "normalize_cell (str_strip_lower c) = str_strip_lower c"
    by (rule str_strip_lower_normal)
qed (simp_all add: normalize_stations_def normalize_results_def)

theorem normalize_idempotent_witness:
  "strip example_text \<noteq> [] \<and>
   normalize example_text = [CHR ''s'', CHR 0xE9, CHR ''1''] \<and>
   normalize [CHR ''s'', CHR 0xE9, CHR ''1''] = [CHR ''s'', CHR 0xE9, CHR ''1''] \<and>
   \<not> isspace (last (strip example_text)) \<and>
   isspace (CHR 0xA0) \<and> isspace (CHR 0x09) \<and> isupper (CHR 0xC9) \<and>
   \<not> isupper (CHR 0xE9)"
proof -
  note t = normalize_idempotent [of example_text]
  have n: "normalize example_text = [CHR ''s'', CHR 0xE9, CHR ''1'']"
    unfolding example_text_def by code_simp
  have s: "strip example_text \<noteq> []"
    unfolding example_text_def by code_simp
  have o: "(of_char (CHR 0xA0) :: nat) = 160" "(of_char (CHR 0x09) :: nat) = 9"
    "(of_char (CHR 0xC9) :: nat) = 201"
    by simp_all
  from t s have "normalize (normalize example_text) = normalize example_text"
    and "\<not> isspace (last (strip example_text))"
    by blast+
  moreover from t have "\<forall>c. isspace c \<longleftrightarrow>
        (of_char c :: nat) \<in> {9, 10, 11, 12, 13, 28, 29, 30, 31, 32, 133, 160}"
    by blast
  then have "isspace (CHR 0xA0)" "isspace (CHR 0x09)" by (simp_all add: o)
  moreover from t have "\<forall>c \<in> set (normalize example_text). \<not> isupper c" by blast
  then have "\<not> isupper (CHR 0xE9)" by (simp add: n)
  moreover from t have "\<forall>c. isupper c \<longleftrightarrow>
        (65 \<le> (of_char c :: nat) \<and> (of_char c :: nat) \<le> 90) \<or>
        (192 \<le> (of_char c :: nat) \<and> (of_char c :: nat) \<le> 214) \<or>
        (216 \<le> (of_char c :: nat) \<and> (of_char c :: nat) \<le> 222)"
    by blast
  then have "isupper (CHR 0xC9)" by (simp add: o)
  ultimately show ?thesis using n s by simp
qed

section \<open>Properties of the loader and of the station resolver\<close>

subsection \<open>C5: the resolved stations\<close>

text \<open>
  Claim C5. The resolved stations are, in table order, the rows of the station table
  whose identifier is among the identifiers of the filtered measurements and whose
  latitude and longitude both convert to a number, with the converted coordinates. A
  missing coordinate and a text that is no number convert to nothing, so such a row is
  left out even when a filtered measurement refers to it. When nothing is left the map
  is replaced by a written message; the page is not an error.
\<close>

theorem filtered_stations_exact:
  "filtered_stations pd station_df fd =
     map (\<lambda>s. \<lparr>MonitoringLocationIdentifier = MonitoringLocationIdentifier s,
               LatitudeMeasure = the (to_numeric pd (LatitudeMeasure s)),
               LongitudeMeasure = the (to_numeric pd (LongitudeMeasure s))\<rparr>)
       (filter (\<lambda>s. MonitoringLocationIdentifier s \<in> NR_MonitoringLocationIdentifier ` set fd \<and>
                     (to_numeric pd (LatitudeMeasure s) \<noteq> None \<and>
                      to_numeric pd (LongitudeMeasure s) \<noteq> None)) station_df) \<and>
   to_numeric pd Missing = None \<and>
   (parse_number pd txt = None \<longrightarrow> to_numeric pd (Text txt) = None) \<and>
   (filtered_stations pd station_df fd = [] \<longrightarrow>
      station_map (filtered_stations pd station_df fd) =
        Written ''No stations found with the selected criteria for this characteristic.'')"
proof (intro conjI impI)
  show "filtered_stations pd station_df fd =
     map (\<lambda>s. \<lparr>MonitoringLocationIdentifier = MonitoringLocationIdentifier s,
               LatitudeMeasure = the (to_numeric pd (LatitudeMeasure s)),
               LongitudeMeasure = the (to_numeric pd (LongitudeMeasure s))\<rparr>)
       (filter (\<lambda>s. MonitoringLocationIdentifier s \<in> NR_MonitoringLocationIdentifier ` set fd \<and>
                     (to_numeric pd (LatitudeMeasure s) \<noteq> None \<and>
                      to_numeric pd (LongitudeMeasure s) \<noteq> None)) station_df)"
    by (rule filtered_stations_eq)
qed (simp_all add: station_map_def)

theorem filtered_stations_exact_witness:
  "normalize_stations (infer_dtype (map MonitoringLocationIdentifier example_stations))
     (load_station_data example_stations) = Inr example_station_df \<and>
   parse_number example_pandas ''abc'' = None \<and>
   to_numeric example_pandas (Text ''abc'') = None \<and>
   filtered_stations example_pandas example_station_df [r1, r2, r3] =
     [\<lparr>MonitoringLocationIdentifier = Some ''s1'', LatitudeMeasure = 40, LongitudeMeasure = -75\<rparr>] \<and>
   filtered_stations example_pandas example_station_df [r5] = [] \<and>
   station_map (filtered_stations example_pandas example_station_df [r5]) =
     Written ''No stations found with the selected criteria for this characteristic.''"
proof -
  let ?st = example_station_df
  have p: "parse_number example_pandas ''abc'' = None"
    by (simp add: example_pandas_def)
  have q: "parse_number example_pandas ''40.0'' = Some 40"
    by (simp add: example_pandas_def)
  note t1 = filtered_stations_exact [of example_pandas ?st "[r1, r2, r3]" "''abc''"]
  note t2 = filtered_stations_exact [of example_pandas ?st "[r5]" "''abc''"]
  have a: "filtered_stations example_pandas ?st [r1, r2, r3] =
     [\<lparr>MonitoringLocationIdentifier = Some ''s1'', LatitudeMeasure = 40, LongitudeMeasure = -75\<rparr>]"
    using t1 by (simp add: example_station_df_def p q r1_def r2_def r3_def)
  have b: "filtered_stations example_pandas ?st [r5] = []"
    using t2 by (simp add: example_station_df_def p q r5_def)
  from t2 b have "station_map (filtered_stations example_pandas ?st [r5]) =
     Written ''No stations found with the selected criteria for this characteristic.''"
    by blast
  moreover from t1 p have "to_numeric example_pandas (Text ''abc'') = None" by blast
  ultimately show ?thesis using a b p normalized_loaded_example by simp
qed

subsection \<open>C6: what the station loader guarantees\<close>

text \<open>
  Claim C6 says that every loaded station row has a present and numeric latitude and
  longitude. The loader only drops missing values: a row whose latitude is the text
  \<open>abc\<close> is kept, and that text converts to no number.
\<close>

theorem load_station_data_keeps_text:
  "load_station_data [st3] = [st3] \<and> LatitudeMeasure st3 = Text ''abc'' \<and>
   to_numeric example_pandas (LatitudeMeasure st3) = None"
  by (simp add: load_station_data_def st3_def isna_def example_pandas_def)

text \<open>
  Claim C6, amended. After the station load every row has a latitude and a longitude
  that are not missing: the loader keeps exactly the rows where neither is missing, and
  this still holds of the table that normalization returns. Numeric coordinates are only established later, by the
  station resolver.
\<close>

theorem load_station_data_present:
  "load_station_data df =
     filter (\<lambda>r. LatitudeMeasure r \<noteq> Missing \<and> LongitudeMeasure r \<noteq> Missing) df \<and>
   (\<forall>r \<in> set (load_station_data df).
      LatitudeMeasure r \<noteq> Missing \<and> LongitudeMeasure r \<noteq> Missing) \<and>
   (\<forall>station_df. normalize_stations dt (load_station_data df) = Inr station_df \<longrightarrow>
      (\<forall>r \<in> set station_df.
         LatitudeMeasure r \<noteq> Missing \<and> LongitudeMeasure r \<noteq> Missing))"
  by (auto simp: load_station_data_def isna_def normalize_stations_def split: dtype.splits)

theorem load_station_data_present_witness:
  "load_station_data example_stations = [st1, st3] \<and>
   LatitudeMeasure st1 \<noteq> Missing \<and> LongitudeMeasure st3 \<noteq> Missing"
proof -
  have l: "load_station_data example_stations = [st1, st3]"
    by (simp add: load_station_data_def example_stations_def st1_def st2_def st3_def isna_def)
  from load_station_data_present [of example_stations]
  have "\<forall>r \<in> set (load_station_data example_stations).
      LatitudeMeasure r \<noteq> Missing \<and> LongitudeMeasure r \<noteq> Missing"
    by blast
  then show ?thesis unfolding l using l by simp
qed

section \<open>Properties of the date widget and of the renderers\<close>

subsection \<open>C7: a single date falls back to the bounds\<close>

text \<open>
  Claim C7. When the date widget hands back a single date, or a tuple that is not a
  pair, the start and end date are the bounds \<open>min_date\<close> and \<open>max_date\<close> of the
  characteristic; a pair is used as start and end. In a run that reaches the date widget
  (the bounds exist and the slider has accepted them) the page is the dashboard of the
  rows filtered with exactly these dates: with the pair when the widget hands back a
  pair, with the bounds otherwise.
\<close>

theorem start_end_fallback:
  "start_end (SingleDate d) min_date max_date = (min_date, max_date) \<and>
   start_end (DateTuple [s, e]) min_date max_date = (s, e) \<and>
   (length ds \<noteq> 2 \<longrightarrow> start_end (DateTuple ds) min_date max_date = (min_date, max_date)) \<and>
   (bounds df (selectbox ui (contaminants df)) = Inr (min_value, max_value, min_date, max_date) \<longrightarrow>
    min_value < max_value \<longrightarrow>
      (date_input ui min_date max_date = DateTuple [s, e] \<longrightarrow>
         (let fd = filtered_df df (selectbox ui (contaminants df))
                     (slider ui min_value max_value) (s, e)
          in dashboard pd ui station_df df =
               Dashboard (length fd) (station_map (filtered_stations pd station_df fd))
                 (trend pd fd))) \<and>
      (date_input ui min_date max_date = SingleDate d \<or>
       date_input ui min_date max_date = DateTuple ds \<and> length ds \<noteq> 2 \<longrightarrow>
         (let fd = filtered_df df (selectbox ui (contaminants df))
                     (slider ui min_value max_value) (min_date, max_date)
          in dashboard pd ui station_df df =
               Dashboard (length fd) (station_map (filtered_stations pd station_df fd))
                 (trend pd fd))))"
proof -
  have f: "start_end (DateTuple ds) min_date max_date = (min_date, max_date)"
    if "length ds \<noteq> 2" for ds
    using that by (cases "(DateTuple ds, min_date, max_date)" rule: start_end.cases) auto
  show ?thesis
  proof (intro conjI impI)
    show "start_end (DateTuple ds) min_date max_date = (min_date, max_date)"
      if "length ds \<noteq> 2"
      using that by (rule f)
  next
    assume b: "bounds df (selectbox ui (contaminants df)) = Inr (min_value, max_value, min_date, max_date)"
      and l: "min_value < max_value"
      and "date_input ui min_date max_date = DateTuple [s, e]"
    then show "let fd = filtered_df df (selectbox ui (contaminants df))
                     (slider ui min_value max_value) (s, e)
          in dashboard pd ui station_df df =
               Dashboard (length fd) (station_map (filtered_stations pd station_df fd))
                 (trend pd fd)"
      by (simp add: dashboard_reached [OF b l] Let_def)
  next
    assume b: "bounds df (selectbox ui (contaminants df)) = Inr (min_value, max_value, min_date, max_date)"
      and l: "min_value < max_value"
      and "date_input ui min_date max_date = SingleDate d \<or>
       date_input ui min_date max_date = DateTuple ds \<and> length ds \<noteq> 2"
    then have "start_end (date_input ui min_date max_date) min_date max_date = (min_date, max_date)"
      using f [of ds] by auto
    then show "let fd = filtered_df df (selectbox ui (contaminants df))
                     (slider ui min_value max_value) (min_date, max_date)
          in dashboard pd ui station_df df =
               Dashboard (length fd) (station_map (filtered_stations pd station_df fd))
                 (trend pd fd)"
      by (simp add: dashboard_reached [OF b l] Let_def)
  qed simp_all
qed

theorem start_end_fallback_witness:
  "bounds example_results (Some ''Lead'') = Inr (5, 15, 18262, 18414) \<and>
   length [18300 :: int] \<noteq> 2 \<and>
   start_end (DateTuple [18300]) 18262 18414 = (18262, 18414) \<and>
   dashboard example_pandas (date_widgets (Some ''Lead'') (DateTuple [18300, 18414]))
       example_station_df example_results =
     Dashboard 2 (station_map (filtered_stations example_pandas example_station_df [r2, r3]))
       (trend example_pandas [r2, r3]) \<and>
   dashboard example_pandas (date_widgets (Some ''Lead'') (SingleDate 18300))
       example_station_df example_results =
     Dashboard 3 (station_map (filtered_stations example_pandas example_station_df [r1, r2, r3]))
       (trend example_pandas [r1, r2, r3]) \<and>
   dashboard example_pandas (date_widgets (Some ''Lead'') (DateTuple [18300]))
       example_station_df example_results =
     Dashboard 3 (station_map (filtered_stations example_pandas example_station_df [r1, r2, r3]))
       (trend example_pandas [r1, r2, r3])"
proof -
  let ?pair = "date_widgets (Some ''Lead'') (DateTuple [18300, 18414])"
  let ?single = "date_widgets (Some ''Lead'') (SingleDate 18300)"
  let ?one = "date_widgets (Some ''Lead'') (DateTuple [18300])"
  have l: "length [18300 :: int] \<noteq> 2" by simp
  have v: "(5 :: real) < 15" by simp
  have b: "bounds example_results (selectbox (date_widgets (Some ''Lead'') p) (contaminants example_results))
     = Inr (5, 15, 18262, 18414)" for p
    by (simp add: date_widgets_def ex_bounds_Lead)
  have f1: "filtered_df example_results (Some ''Lead'') (5, 15) (18300, 18414) = [r2, r3]"
    by (simp add: filtered_df_def mask_def ex_defs date_def ns_per_day_def)
  have f2: "filtered_df example_results (Some ''Lead'') (5, 15) (18262, 18414) = [r1, r2, r3]"
    by (simp add: filtered_df_def mask_def ex_defs date_def ns_per_day_def)
  have w: "selectbox (date_widgets (Some ''Lead'') p) c = Some ''Lead''"
    "slider (date_widgets (Some ''Lead'') p) 5 15 = (5, 15)"
    "date_input (date_widgets (Some ''Lead'') p) 18262 18414 = p" for p c
    by (simp_all add: date_widgets_def)
  have 1: "dashboard example_pandas ?pair example_station_df example_results =
     Dashboard 2 (station_map (filtered_stations example_pandas example_station_df [r2, r3]))
       (trend example_pandas [r2, r3])"
    using start_end_fallback [where df = example_results and ui = ?pair and min_value = 5
        and max_value = 15 and min_date = 18262 and max_date = 18414 and s = 18300
        and e = 18414 and pd = example_pandas and station_df = example_station_df]
      b [of "DateTuple [18300, 18414]"] v
    by (simp add: w f1 Let_def)
  have 2: "dashboard example_pandas ?single example_station_df example_results =
     Dashboard 3 (station_map (filtered_stations example_pandas example_station_df [r1, r2, r3]))
       (trend example_pandas [r1, r2, r3])"
    using start_end_fallback [where df = example_results and ui = ?single and min_value = 5
        and max_value = 15 and min_date = 18262 and max_date = 18414 and d = 18300
        and pd = example_pandas and station_df = example_station_df]
      b [of "SingleDate 18300"] v
    by (simp add: w f2 Let_def)
  have 3: "dashboard example_pandas ?one example_station_df example_results =
     Dashboard 3 (station_map (filtered_stations example_pandas example_station_df [r1, r2, r3]))
       (trend example_pandas [r1, r2, r3])"
    using start_end_fallback [where df = example_results and ui = ?one and min_value = 5
        and max_value = 15 and min_date = 18262 and max_date = 18414 and ds = "[18300]"
        and pd = example_pandas and station_df = example_station_df]
      b [of "DateTuple [18300]"] v
    by (simp add: w f2 Let_def)
  have 4: "start_end (DateTuple [18300]) 18262 18414 = (18262, 18414)"
    using start_end_fallback [where ds = "[18300]" and min_date = 18262 and max_date = 18414] l
    by blast
  from l 1 2 3 4 show ?thesis by (simp add: ex_bounds_Lead)
qed

subsection \<open>C8: map center and markers\<close>

text \<open>
  Claim C8. For a non-empty list of resolved stations the map is centered at the mean of
  the latitudes and the mean of the longitudes, and the markers correspond one to one,
  in order, to the stations: each lies at its station's coordinate and carries the
  station's identifier. The identifiers of stations resolved from the table that
  normalization returns are in normal form.
\<close>

theorem station_map_center_markers:
  "(fs \<noteq> [] \<longrightarrow>
      (\<exists>markers.
         station_map fs =
           Folium_Map (sum_list (map LatitudeMeasure fs) / real (length fs),
                       sum_list (map LongitudeMeasure fs) / real (length fs)) markers \<and>
         length markers = length fs \<and>
         (\<forall>i < length fs.
            location (markers ! i) = (LatitudeMeasure (fs ! i), LongitudeMeasure (fs ! i)) \<and>
            popup (markers ! i) = MonitoringLocationIdentifier (fs ! i)))) \<and>
   (normalize_stations dt raw_df = Inr station_df \<longrightarrow>
      (\<forall>s \<in> set (filtered_stations pd station_df fd).
         normalize_cell (MonitoringLocationIdentifier s) = MonitoringLocationIdentifier s))"
proof (intro conjI impI ballI)
  assume ne: "fs \<noteq> []"
  have "station_map fs =
           Folium_Map (sum_list (map LatitudeMeasure fs) / real (length fs),
                       sum_list (map LongitudeMeasure fs) / real (length fs))
             (map station_marker fs)"
    using ne by (simp add: station_map_def mean_def)
  moreover have "length (map station_marker fs) = length fs" by simp
  moreover have "\<forall>i < length fs.
            location (map station_marker fs ! i) = (LatitudeMeasure (fs ! i), LongitudeMeasure (fs ! i)) \<and>
            popup (map station_marker fs ! i) = MonitoringLocationIdentifier (fs ! i)"
    using station_marker_nth by blast
  ultimately show "\<exists>markers.
         station_map fs =
           Folium_Map (sum_list (map LatitudeMeasure fs) / real (length fs),
                       sum_list (map LongitudeMeasure fs) / real (length fs)) markers \<and>
         length markers = length fs \<and>
         (\<forall>i < length fs.
            location (markers ! i) = (LatitudeMeasure (fs ! i), LongitudeMeasure (fs ! i)) \<and>
            popup (markers ! i) = MonitoringLocationIdentifier (fs ! i))"
    by blast
next
  fix s assume n: "normalize_stations dt raw_df = Inr station_df"
    and "s \<in> set (filtered_stations pd station_df fd)"
  then obtain s0 where "s0 \<in> set station_df"
    and "MonitoringLocationIdentifier s = MonitoringLocationIdentifier s0"
    using filtered_stations_ids by blast
  then show "normalize_cell (MonitoringLocationIdentifier s) = MonitoringLocationIdentifier s"
    using normalize_stations_ids [OF n] by metis
qed

theorem station_map_center_markers_witness:
  "two_stations \<noteq> [] \<and>
   station_map two_stations =
     Folium_Map (41, -76)
       [\<lparr>location = (40, -75), popup = Some ''s1''\<rparr>, \<lparr>location = (42, -77), popup = Some ''s4''\<rparr>] \<and>
   normalize_stations (infer_dtype (map MonitoringLocationIdentifier example_stations))
     (load_station_data example_stations) = Inr example_station_df \<and>
   \<lparr>MonitoringLocationIdentifier = Some ''s1'', LatitudeMeasure = 40, LongitudeMeasure = -75\<rparr>
     \<in> set (filtered_stations example_pandas example_station_df [r1, r2, r3]) \<and>
   normalize_cell (Some ''s1'') = Some ''s1''"
proof -
  have i: "\<lparr>MonitoringLocationIdentifier = Some ''s1'', LatitudeMeasure = 40, LongitudeMeasure = -75\<rparr>
     \<in> set (filtered_stations example_pandas example_station_df [r1, r2, r3])"
    by (simp add: resolved_example)
  from station_map_center_markers [where fs = two_stations and pd = example_pandas
      and dt = "infer_dtype (map MonitoringLocationIdentifier example_stations)"
      and raw_df = "load_station_data example_stations" and station_df = example_station_df
      and fd = "[r1, r2, r3]"] normalized_loaded_example
  have "\<forall>s \<in> set (filtered_stations example_pandas example_station_df [r1, r2, r3]).
      normalize_cell (MonitoringLocationIdentifier s) = MonitoringLocationIdentifier s"
    by blast
  from bspec [OF this i] have j: "normalize_cell (Some ''s1'') = Some ''s1''" by simp
  have ne: "two_stations \<noteq> []" by (simp add: two_stations_def)
  from station_map_center_markers [where fs = two_stations] ne
  obtain markers where m: "station_map two_stations =
           Folium_Map (sum_list (map LatitudeMeasure two_stations) / real (length two_stations),
                       sum_list (map LongitudeMeasure two_stations) / real (length two_stations)) markers"
    and l: "length markers = length two_stations"
    and n: "\<forall>i < length two_stations.
            location (markers ! i) = (LatitudeMeasure (two_stations ! i), LongitudeMeasure (two_stations ! i)) \<and>
            popup (markers ! i) = MonitoringLocationIdentifier (two_stations ! i)"
    by blast
  from l obtain a b where ab: "markers = [a, b]"
    by (cases markers; cases "tl markers") (auto simp: two_stations_def)
  from n have "location a = (40, -75) \<and> popup a = Some ''s1''"
    unfolding ab by (auto simp: two_stations_def dest: spec [of _ 0])
  moreover from n have "location b = (42, -77) \<and> popup b = Some ''s4''"
    unfolding ab by (auto simp: two_stations_def dest: spec [of _ 1])
  ultimately have "markers =
     [\<lparr>location = (40, -75), popup = Some ''s1''\<rparr>, \<lparr>location = (42, -77), popup = Some ''s4''\<rparr>]"
    unfolding ab by (cases a; cases b) simp
  with m ne i j normalized_loaded_example show ?thesis by (simp add: two_stations_def)
qed

subsection \<open>C9: one date-ordered series per station of the filtered rows\<close>

text \<open>
  Claim C9. In a run that reaches the chart (the bounds exist and the slider has accepted
  them) the chart is the trend of the filtered rows, whatever the station table is; with
  an empty station table the map is replaced by the written message and the chart is the
  same. The chart has exactly one line for every station identifier that occurs in the
  filtered rows, in sorted order of the identifiers, so a station without a valid
  coordinate keeps its line. A line holds exactly the filtered rows of its station, in
  ascending order of their timestamps, hence of their dates, given that the library's
  sort sorts. Rows whose identifier is missing belong to no station and are not plotted.
\<close>

theorem trend_series:
  assumes "sorts_by_date pd"
    and "bounds df (selectbox ui (contaminants df)) = Inr (min_value, max_value, min_date, max_date)"
    and "min_value < max_value"
    and "fd = filtered_df df (selectbox ui (contaminants df)) (slider ui min_value max_value)
                (start_end (date_input ui min_date max_date) min_date max_date)"
  shows "dashboard pd ui station_df df =
           Dashboard (length fd) (station_map (filtered_stations pd station_df fd)) (trend pd fd) \<and>
         dashboard pd ui [] df =
           Dashboard (length fd)
             (Written ''No stations found with the selected criteria for this characteristic.'')
             (trend pd fd) \<and>
         distinct (map label (trend pd fd)) \<and>
         sorted (map label (trend pd fd)) \<and>
         set (map label (trend pd fd)) = {site. Some site \<in> NR_MonitoringLocationIdentifier ` set fd} \<and>
         (\<forall>l \<in> set (trend pd fd).
            \<exists>rows. mset rows = mset (filter (\<lambda>r. NR_MonitoringLocationIdentifier r = Some (label l)) fd) \<and>
                   sorted (map ActivityStartDate rows) \<and>
                   sorted (map (\<lambda>r. date (ActivityStartDate r)) rows) \<and>
                   xs_line l = map ActivityStartDate rows \<and>
                   ys_line l = map ResultMeasureValue rows)"
proof (intro conjI ballI)
  show "dashboard pd ui station_df df =
           Dashboard (length fd) (station_map (filtered_stations pd station_df fd)) (trend pd fd)"
    unfolding assms(4) by (rule dashboard_reached [OF assms(2, 3)])
  have "filtered_stations pd [] fd = []"
    by (simp add: filtered_stations_def List.map_filter_simps)
  then show "dashboard pd ui [] df =
           Dashboard (length fd)
             (Written ''No stations found with the selected criteria for this characteristic.'')
             (trend pd fd)"
    unfolding assms(4) by (simp add: dashboard_reached [OF assms(2, 3)] station_map_def)
  show "distinct (map label (trend pd fd))" by (simp add: labels_trend)
  show "sorted (map label (trend pd fd))" by (simp add: labels_trend)
  show "set (map label (trend pd fd)) = {site. Some site \<in> NR_MonitoringLocationIdentifier ` set fd}"
    by (simp only: labels_trend set_sort set_remdups set_map_filter_Some)
next
  fix l assume "l \<in> set (trend pd fd)"
  with assms(1)
  show "\<exists>rows. mset rows = mset (filter (\<lambda>r. NR_MonitoringLocationIdentifier r = Some (label l)) fd) \<and>
             sorted (map ActivityStartDate rows) \<and>
             sorted (map (\<lambda>r. date (ActivityStartDate r)) rows) \<and>
             xs_line l = map ActivityStartDate rows \<and>
             ys_line l = map ResultMeasureValue rows"
    by (rule line_of_trend)
qed

theorem trend_series_witness:
  "sorts_by_date example_pandas \<and>
   bounds example_results (selectbox (default_widgets (Some ''Lead'')) (contaminants example_results))
     = Inr (5, 15, 18262, 18414) \<and>
   filtered_stations example_pandas example_station_df [r1, r2, r3] =
     [\<lparr>MonitoringLocationIdentifier = Some ''s1'', LatitudeMeasure = 40, LongitudeMeasure = -75\<rparr>] \<and>
   dashboard example_pandas (default_widgets (Some ''Lead'')) example_station_df example_results =
     Dashboard 3
       (station_map
          [\<lparr>MonitoringLocationIdentifier = Some ''s1'', LatitudeMeasure = 40, LongitudeMeasure = -75\<rparr>])
       [\<lparr>label = ''s1'', xs_line = [18262 * ns_per_day, 18414 * ns_per_day + 3600000000000],
         ys_line = [5, 15]\<rparr>,
        \<lparr>label = ''s2'', xs_line = [18322 * ns_per_day], ys_line = [10]\<rparr>] \<and>
   (\<exists>rows. mset rows = {#r3#} \<and> [18322 * ns_per_day] = map ActivityStartDate rows \<and>
           [10] = map ResultMeasureValue rows)"
proof -
  let ?ui = "default_widgets (Some ''Lead'')"
  let ?l2 = "\<lparr>label = ''s2'', xs_line = [18322 * ns_per_day], ys_line = [10]\<rparr>"
  have b: "bounds example_results (selectbox ?ui (contaminants example_results))
     = Inr (5, 15, 18262, 18414)"
    by (simp add: default_widgets_def ex_bounds_Lead)
  have v: "(5 :: real) < 15" by simp
  have f: "[r1, r2, r3] =
     filtered_df example_results (selectbox ?ui (contaminants example_results)) (slider ?ui 5 15)
       (start_end (date_input ?ui 18262 18414) 18262 18414)"
    by (simp add: default_widgets_def filtered_df_def mask_def ex_defs date_def ns_per_day_def)
  note t = trend_series [OF sorts_by_date_example b v f, of example_station_df]
  from t have d: "dashboard example_pandas ?ui example_station_df example_results =
      Dashboard (length [r1, r2, r3])
        (station_map (filtered_stations example_pandas example_station_df [r1, r2, r3]))
        (trend example_pandas [r1, r2, r3])"
    by blast
  have m: "?l2 \<in> set (trend example_pandas [r1, r2, r3])"
    by (simp add: trend_example)
  from t have "\<forall>l \<in> set (trend example_pandas [r1, r2, r3]).
      \<exists>rows. mset rows = mset (filter (\<lambda>r. NR_MonitoringLocationIdentifier r = Some (label l)) [r1, r2, r3]) \<and>
             sorted (map ActivityStartDate rows) \<and>
             sorted (map (\<lambda>r. date (ActivityStartDate r)) rows) \<and>
             xs_line l = map ActivityStartDate rows \<and>
             ys_line l = map ResultMeasureValue rows"
    by blast
  from bspec [OF this m]
  have r: "\<exists>rows. mset rows = {#r3#} \<and> [18322 * ns_per_day] = map ActivityStartDate rows \<and>
           [10] = map ResultMeasureValue rows"
    by (simp add: r1_def r2_def r3_def)
  from b r d show ?thesis
    by (simp add: trend_example resolved_example sorts_by_date_example)
qed

section \<open>Reachability of the empty selection\<close>

subsection \<open>C10: selecting from the distinct characteristic names\<close>

text \<open>
  Claim C10 says that a selection drawn from the distinct characteristic names always
  has rows, so that the error branch cannot be reached. The distinct values include the
  missing value when some row has no characteristic name, and the missing value equals
  no row: selecting it gives the error page.
\<close>

theorem empty_selection_reachable:
  "None \<in> set (contaminants example_results) \<and>
   selectbox (default_widgets None) (contaminants example_results) = None \<and>
   filtered_initial example_results None = [] \<and>
   bounds example_results None = Inl EmptySelection \<and>
   dashboard example_pandas (default_widgets None) example_station_df example_results =
     Error ''No records found for the selected contaminant.''"
  by (simp add: contaminants_def ex_defs default_widgets_def bounds_def dashboard_def)

text \<open>
  Claim C10, amended. Whenever the selection is a characteristic name (not the missing
  value) among the distinct values of the table, some row matches it, the bounds exist
  and the script does not take the empty-selection branch; when moreover the two value
  bounds differ, the script builds the dashboard of the filtered rows. In general the
  matching rows are empty exactly when the selection is the missing value or is not among
  the distinct values.
\<close>

theorem named_selection_not_empty:
  "(filtered_initial df sel = [] \<longleftrightarrow> sel = None \<or> sel \<notin> set (contaminants df)) \<and>
   (Some c \<in> set (contaminants df) \<longrightarrow>
      filtered_initial df (Some c) \<noteq> [] \<and>
      (\<exists>min_value max_value min_date max_date.
         bounds df (Some c) = Inr (min_value, max_value, min_date, max_date) \<and>
         (selectbox ui (contaminants df) = Some c \<longrightarrow>
            dashboard pd ui station_df df \<noteq> Error ''No records found for the selected contaminant.'' \<and>
            (min_value < max_value \<longrightarrow>
               (let fd = filtered_df df (Some c) (slider ui min_value max_value)
                           (start_end (date_input ui min_date max_date) min_date max_date)
                in dashboard pd ui station_df df =
                     Dashboard (length fd) (station_map (filtered_stations pd station_df fd))
                       (trend pd fd))))))"
proof (intro conjI impI)
  show "filtered_initial df sel = [] \<longleftrightarrow> sel = None \<or> sel \<notin> set (contaminants df)"
  proof (cases sel)
    case None
    then show ?thesis by simp
  next
    case (Some name)
    have "filtered_initial df (Some name) = [] \<longleftrightarrow> Some name \<notin> CharacteristicName ` set df"
      by (force simp: filtered_initial_Some filter_empty_conv image_iff)
    with Some show ?thesis by (simp add: contaminants_def)
  qed
next
  assume "Some c \<in> set (contaminants df)"
  then obtain r where "r \<in> set df" "CharacteristicName r = Some c"
    by (auto simp: contaminants_def)
  then have "r \<in> set (filtered_initial df (Some c))"
    by (simp add: filtered_initial_Some)
  then show ne: "filtered_initial df (Some c) \<noteq> []" by auto
  then obtain b where "bounds df (Some c) = Inr b"
    by (cases "bounds df (Some c)") (auto simp: bounds_Inl_iff)
  then obtain v w x y where b: "bounds df (Some c) = Inr (v, w, x, y)"
    by (cases b) auto
  have "dashboard pd ui station_df df \<noteq> Error ''No records found for the selected contaminant.'' \<and>
        (v < w \<longrightarrow>
           (let fd = filtered_df df (Some c) (slider ui v w)
                       (start_end (date_input ui x y) x y)
            in dashboard pd ui station_df df =
                 Dashboard (length fd) (station_map (filtered_stations pd station_df fd))
                   (trend pd fd)))"
    if s: "selectbox ui (contaminants df) = Some c"
  proof (cases "v < w")
    case True
    from b s have "bounds df (selectbox ui (contaminants df)) = Inr (v, w, x, y)" by simp
    from dashboard_reached [OF this True, of pd station_df] s True
    show ?thesis by (simp add: Let_def)
  next
    case False
    from b s have "bounds df (selectbox ui (contaminants df)) = Inr (v, w, x, y)" by simp
    from dashboard_slider_raises [OF this False, of pd station_df] False
    show ?thesis by simp
  qed
  with b show "\<exists>min_value max_value min_date max_date.
         bounds df (Some c) = Inr (min_value, max_value, min_date, max_date) \<and>
         (selectbox ui (contaminants df) = Some c \<longrightarrow>
            dashboard pd ui station_df df \<noteq> Error ''No records found for the selected contaminant.'' \<and>
            (min_value < max_value \<longrightarrow>
               (let fd = filtered_df df (Some c) (slider ui min_value max_value)
                           (start_end (date_input ui min_date max_date) min_date max_date)
                in dashboard pd ui station_df df =
                     Dashboard (length fd) (station_map (filtered_stations pd station_df fd))
                       (trend pd fd))))"
    by blast
qed

theorem named_selection_not_empty_witness:
  "Some ''Lead'' \<in> set (contaminants example_results) \<and>
   filtered_initial example_results (Some ''Lead'') \<noteq> [] \<and>
   bounds example_results (Some ''Lead'') = Inr (5, 15, 18262, 18414) \<and>
   selectbox (default_widgets (Some ''Lead'')) (contaminants example_results) = Some ''Lead'' \<and>
   dashboard example_pandas (default_widgets (Some ''Lead'')) example_station_df example_results =
     Dashboard 3 (station_map (filtered_stations example_pandas example_station_df [r1, r2, r3]))
       (trend example_pandas [r1, r2, r3]) \<and>
   filtered_initial example_results (Some ''Iron'') = [] \<and>
   Some ''Iron'' \<notin> set (contaminants example_results)"
proof -
  let ?ui = "default_widgets (Some ''Lead'')"
  have m: "Some ''Lead'' \<in> set (contaminants example_results)"
    by (simp add: contaminants_def ex_defs)
  have s: "selectbox ?ui (contaminants example_results) = Some ''Lead''"
    by (simp add: default_widgets_def)
  have f: "filtered_df example_results (Some ''Lead'') (slider ?ui 5 15)
       (start_end (date_input ?ui 18262 18414) 18262 18414) = [r1, r2, r3]"
    by (simp add: default_widgets_def filtered_df_def mask_def ex_defs date_def ns_per_day_def)
  have i: "Some ''Iron'' \<notin> set (contaminants example_results)"
    by (simp add: contaminants_def ex_defs)
  note t = named_selection_not_empty [where df = example_results and c = "''Lead''"
      and ui = ?ui and pd = example_pandas and station_df = example_station_df
      and sel = "Some ''Iron''"]
  from t m have ne: "filtered_initial example_results (Some ''Lead'') \<noteq> []" by blast
  from t i have e: "filtered_initial example_results (Some ''Iron'') = []" by blast
  from t m s obtain min_value max_value min_date max_date where
    "bounds example_results (Some ''Lead'') = Inr (min_value, max_value, min_date, max_date)"
    and d: "min_value < max_value \<longrightarrow>
       (let fd = filtered_df example_results (Some ''Lead'') (slider ?ui min_value max_value)
                   (start_end (date_input ?ui min_date max_date) min_date max_date)
        in dashboard example_pandas ?ui example_station_df example_results =
             Dashboard (length fd)
               (station_map (filtered_stations example_pandas example_station_df fd))
               (trend example_pandas fd))"
    by blast
  then have v: "min_value = 5" "max_value = 15" "min_date = 18262" "max_date = 18414"
    by (simp_all add: ex_bounds_Lead)
  from d have "dashboard example_pandas ?ui example_station_df example_results =
     Dashboard 3 (station_map (filtered_stations example_pandas example_station_df [r1, r2, r3]))
       (trend example_pandas [r1, r2, r3])"
    unfolding v by (simp add: f Let_def)
  with m ne s e i show ?thesis by (simp add: ex_bounds_Lead)
qed

end
